theory Spec2Isabelle
  imports Complex_Main "HOL-Library.Word"
begin

unbundle bit_operations_syntax

section \<open>Python values\<close>

text \<open>
  A Python \<open>str\<close> is a sequence of code points, a \<open>bytes\<close> object a sequence of
  8-bit characters. \<open>lit\<close> turns an ASCII literal of the source into a \<open>str\<close>.
\<close>

type_synonym str = "nat list"
type_synonym bytes = "char list"

definition lit :: "string \<Rightarrow> str" where
  "lit s = map of_char s"

text \<open>
  The values \<open>Response.json()\<close> can return (\<open>None\<close>, booleans, unbounded integers,
  floats as their IEEE-754 bits, strings, lists, dictionaries in insertion order), and the
  tuples the result reader builds from them.
\<close>

datatype pyval =
    PNone
  | PBool bool
  | PInt int
  | PFloat "64 word"
  | PStr str
  | PList "pyval list"
  | PTuple "pyval list"
  | PDict "(str \<times> pyval) list"

text \<open>
  Exceptions: the class and the argument tuple. For the exceptions the interpreter raises
  itself (\<open>KeyError\<close>, \<open>TypeError\<close>, \<open>AttributeError\<close>) only the class is kept.
\<close>

datatype exc_class =
    ValueError | Error | InterfaceError | OperationalError
  | KeyError | TypeError | AttributeError | UnicodeEncodeError

datatype exn = Exn exc_class "pyval list"

text \<open>Truth value testing (\<open>if x\<close>, \<open>not x\<close>, \<open>x or y\<close>).\<close>

fun truthy :: "pyval \<Rightarrow> bool" where
  "truthy PNone = False"
| "truthy (PBool b) = b"
| "truthy (PInt i) = (i \<noteq> 0)"
| "truthy (PFloat w) = (push_bit 1 w \<noteq> 0)"
| "truthy (PStr s) = (s \<noteq> [])"
| "truthy (PList xs) = (xs \<noteq> [])"
| "truthy (PTuple xs) = (xs \<noteq> [])"
| "truthy (PDict kvs) = (kvs \<noteq> [])"

text \<open>Truth value of an optional string argument (\<open>None\<close> or a \<open>str\<close>).\<close>

fun truthy_str :: "str option \<Rightarrow> bool" where
  "truthy_str None = False"
| "truthy_str (Some s) = (s \<noteq> [])"

text \<open>\<open>x[k]\<close> with a string key.\<close>

fun getitem :: "pyval \<Rightarrow> str \<Rightarrow> exn + pyval" where
  "getitem (PDict kvs) k =
     (case map_of kvs k of
        Some v \<Rightarrow> Inr v
      | None \<Rightarrow> Inl (Exn KeyError [PStr k]))"
| "getitem v k = Inl (Exn TypeError [])"

text \<open>\<open>len(x)\<close>.\<close>

fun py_len :: "pyval \<Rightarrow> exn + nat" where
  "py_len (PStr s) = Inr (length s)"
| "py_len (PList xs) = Inr (length xs)"
| "py_len (PTuple xs) = Inr (length xs)"
| "py_len (PDict kvs) = Inr (length kvs)"
| "py_len v = Inl (Exn TypeError [])"

text \<open>The elements \<open>for x in v\<close> runs through.\<close>

fun py_iter :: "pyval \<Rightarrow> exn + pyval list" where
  "py_iter (PStr s) = Inr (map (\<lambda>c. PStr [c]) s)"
| "py_iter (PList xs) = Inr xs"
| "py_iter (PTuple xs) = Inr xs"
| "py_iter (PDict kvs) = Inr (map (\<lambda>kv. PStr (fst kv)) kvs)"
| "py_iter v = Inl (Exn TypeError [])"

text \<open>\<open>str(n)\<close> for an integer.\<close>

function str_nat :: "nat \<Rightarrow> str" where
  "str_nat n = (if n < 10 then [48 + n] else str_nat (n div 10) @ [48 + n mod 10])"
  by pat_completeness auto
termination
  by (relation "measure id") auto

definition str_int :: "int \<Rightarrow> str" where
  "str_int i = (if i < 0 then 45 # str_nat (nat (- i)) else str_nat (nat i))"

text \<open>
  A number given as a timeout, an \<open>int\<close> or a \<open>float\<close>, by its value. \<open>NaN\<close> compares
  false with everything; in a truth value test only zero is false.
\<close>

datatype number = Finite rat | PosInf | NegInf | NaN

text \<open>\<open>n < x\<close> and \<open>x <= n\<close> for an integer literal \<open>n\<close>, and the truth value of \<open>x\<close>.\<close>

fun int_less :: "int \<Rightarrow> number \<Rightarrow> bool" where
  "int_less n (Finite q) = (of_int n < q)"
| "int_less n PosInf = True"
| "int_less n NegInf = False"
| "int_less n NaN = False"

fun less_eq_int :: "number \<Rightarrow> int \<Rightarrow> bool" where
  "less_eq_int (Finite q) n = (q \<le> of_int n)"
| "less_eq_int PosInf n = False"
| "less_eq_int NegInf n = True"
| "less_eq_int NaN n = False"

fun truthy_number :: "number \<Rightarrow> bool" where
  "truthy_number (Finite q) = (q \<noteq> 0)"
| "truthy_number x = True"

section \<open>Operations on bytes\<close>

text \<open>\<open>bytes.lower()\<close>: the ASCII capitals are mapped to small letters.\<close>

definition lower_byte :: "char \<Rightarrow> char" where
  "lower_byte c =
     (if 65 \<le> (of_char c :: nat) \<and> (of_char c :: nat) \<le> 90
      then char_of ((of_char c :: nat) + 32) else c)"

definition lower :: "bytes \<Rightarrow> bytes" where
  "lower b = map lower_byte b"

text \<open>\<open>bytes.lstrip()\<close>: leading ASCII whitespace (tab, LF, VT, FF, CR, space) is removed.\<close>

definition isspace :: "char \<Rightarrow> bool" where
  "isspace c = ((9 \<le> (of_char c :: nat) \<and> (of_char c :: nat) \<le> 13) \<or> (of_char c :: nat) = 32)"

definition lstrip :: "bytes \<Rightarrow> bytes" where
  "lstrip b = dropWhile isspace b"

definition startswith :: "bytes \<Rightarrow> bytes \<Rightarrow> bool" where
  "startswith b p = (take (length p) b = p)"

section \<open>The UTF-8 codec of CPython 3\<close>

datatype errors = Strict | SurrogateEscape

text \<open>
  One code point; \<open>None\<close> is a \<open>UnicodeEncodeError\<close>. Surrogates are refused, except
  that \<open>surrogateescape\<close> turns U+DC80 .. U+DCFF back into the single byte it stands for.
\<close>

definition utf8_char :: "errors \<Rightarrow> nat \<Rightarrow> bytes option" where
  "utf8_char e c =
     (if c < 0x80 then Some [char_of c]
      else if c < 0x800 then Some [char_of (0xC0 + c div 64), char_of (0x80 + c mod 64)]
      else if 0xD800 \<le> c \<and> c \<le> 0xDFFF then
        (if e = SurrogateEscape \<and> 0xDC80 \<le> c \<and> c \<le> 0xDCFF
         then Some [char_of (c - 0xDC00)]
         else None)
      else if c < 0x10000 then
        Some [char_of (0xE0 + c div 4096), char_of (0x80 + (c div 64) mod 64),
             char_of (0x80 + c mod 64)]
      else if c < 0x110000 then
        Some [char_of (0xF0 + c div 262144), char_of (0x80 + (c div 4096) mod 64),
             char_of (0x80 + (c div 64) mod 64), char_of (0x80 + c mod 64)]
      else None)"

fun utf8_encode :: "errors \<Rightarrow> str \<Rightarrow> bytes option" where
  "utf8_encode e [] = Some []"
| "utf8_encode e (c # cs) =
     (case utf8_char e c of
        None \<Rightarrow> None
      | Some b \<Rightarrow> (case utf8_encode e cs of None \<Rightarrow> None | Some bs \<Rightarrow> Some (b @ bs)))"

section \<open>The collaborators outside the connection\<close>

text \<open>
  The transport: one POST is a \<open>request\<close>; it either raises (the text of the exception)
  or returns a \<open>response\<close>, whose \<open>json\<close> is \<open>None\<close> when decoding the body raises.
\<close>

datatype field = FieldNone | FieldStr str | FieldBytes bytes

record request =
  url :: str
  data :: "(str \<times> field) list"

record response =
  ok :: bool
  reason :: str
  json :: "pyval option"

text \<open>
  The \<open>requests.Session\<close> the connection owns. \<open>posted\<close> is the history of the
  POSTs sent through it, oldest first.
\<close>

datatype cert = CertKey "str option" | CertPair str "str option"

record session =
  verify :: bool
  cert :: cert
  posted :: "request list"

text \<open>
  What the code takes from its surroundings: the runtime flags of \<open>_compat\<close> and
  \<open>sys.version_info[0]\<close>, \<open>str.encode(encoding, errors)\<close> (\<open>None\<close> when it raises
  \<open>UnicodeEncodeError\<close>), \<open>int(s)\<close> on a string (\<open>Inl\<close> the quoted literal its
  \<open>ValueError\<close> shows), \<open>os.path.expanduser\<close>, the configuration file and the transport.
\<close>

text \<open>
  Modelled from the spec: the class \<open>Parser\<close> of \<open>optionfile\<close> is missing. \<open>cfg_get file
  group key\<close> is the lookup of a key in a group of the file read: it returns a string, or
  nothing when the lookup fails.
\<close>

record env =
  PY2 :: bool
  JYTHON :: bool
  IRONPYTHON :: bool
  version_major :: nat
  encode :: "str \<Rightarrow> errors \<Rightarrow> str \<Rightarrow> bytes option"
  py_int :: "str \<Rightarrow> str + int"
  expanduser :: "str \<Rightarrow> str"
  cfg_get :: "str \<Rightarrow> str \<Rightarrow> str \<Rightarrow> str option"
  post :: "request \<Rightarrow> str + response"

text \<open>The SQL argument is a text string (\<open>text_type\<close>) or a byte string.\<close>

datatype sql = SqlStr str | SqlBytes bytes

text \<open>A string literal of the source: bytes under Python 2, text otherwise.\<close>

definition str_literal :: "env \<Rightarrow> string \<Rightarrow> sql" where
  "str_literal env s = (if PY2 env then SqlBytes s else SqlStr (lit s))"

section \<open>The data model\<close>

text \<open>
  \<open>CovenantSQLResult\<close>. Its reference back to the connection is not stored: \<open>read\<close> takes
  the connection as an argument.
\<close>

record CovenantSQLResult =
  affected_rows :: "nat option"
  insert_id :: "int option"
  warning_count :: nat
  message :: "str option"
  field_count :: nat
  description :: "pyval option"
  rows :: "pyval option"
  has_next :: "bool option"

text \<open>
  \<open>Connection\<close>. The attributes \<open>_resp\<close>, \<open>_closed\<close>, ... are written without the
  underscore; \<open>_affected_rows\<close> is \<open>conn_affected_rows\<close>. An attribute that may not be
  set on the instance has an option type with \<open>None\<close> for "not set": \<open>closed\<close>,
  \<open>resp_json\<close>, \<open>server_status\<close>, \<open>use_unicode\<close>. For the others \<open>None\<close> is Python's.
\<close>

record Connection =
  resp :: "response option"
  encoding :: str
  dsn :: "str option"
  host :: str
  port :: int
  key :: "str option"
  database :: "str option"
  query_uri :: str
  exec_uri :: str
  session :: session
  connect_timeout :: "number option"
  read_timeout :: "number option"
  write_timeout :: "number option"
  use_unicode :: "bool option"
  cursorclass :: str
  result :: "CovenantSQLResult option"
  conn_affected_rows :: "nat option"
  autocommit_mode :: "bool option"
  sock :: "bool option"
  closed :: "bool option"
  resp_json :: "pyval option"
  server_status :: "pyval option"

text \<open>The class attribute \<open>_closed = False\<close>, read when the instance has none.\<close>

definition Connection_closed :: bool where
  "Connection_closed = False"

definition get_closed :: "Connection \<Rightarrow> bool" where
  "get_closed c = (case closed c of None \<Rightarrow> Connection_closed | Some b \<Rightarrow> b)"

text \<open>The keyword arguments of the constructor, and their defaults.\<close>

record kwargs =
  kw_dsn :: "str option"
  kw_host :: "str option"
  kw_port :: int
  kw_key :: "str option"
  kw_database :: "str option"
  kw_https_pem :: "str option"
  kw_read_default_file :: "str option"
  kw_use_unicode :: "bool option"
  kw_cursorclass :: str
  kw_init_command :: "str option"
  kw_connect_timeout :: number
  kw_read_default_group :: "str option"
  kw_autocommit :: "bool option"
  kw_defer_connect :: bool
  kw_read_timeout :: "number option"
  kw_write_timeout :: "number option"

definition default_kwargs :: kwargs where
  "default_kwargs =
     \<lparr>kw_dsn = None, kw_host = None, kw_port = 0, kw_key = None, kw_database = None,
      kw_https_pem = None, kw_read_default_file = None, kw_use_unicode = None,
      kw_cursorclass = lit ''Cursor'', kw_init_command = None, kw_connect_timeout = Finite 10,
      kw_read_default_group = None, kw_autocommit = Some False, kw_defer_connect = False,
      kw_read_timeout = None, kw_write_timeout = None\<rparr>"

section \<open>The operations of the connection\<close>

text \<open>
  An operation takes the connection and returns what it raises (\<open>Inl\<close>) or returns
  (\<open>Inr\<close>), together with the connection as the operation leaves it: what was assigned
  before an exception stays assigned.
\<close>

subsection \<open>\<open>Connection._execute_command\<close>\<close>

definition field_of :: "str option \<Rightarrow> field" where
  "field_of d = (case d of None \<Rightarrow> FieldNone | Some s \<Rightarrow> FieldStr s)"

text \<open>\<open>sql.encode(encoding, errors)\<close>, with the exception it raises.\<close>

definition encode_exn :: "env \<Rightarrow> str \<Rightarrow> errors \<Rightarrow> str \<Rightarrow> exn + bytes" where
  "encode_exn env enc e t =
     (case encode env enc e t of None \<Rightarrow> Inl (Exn UnicodeEncodeError []) | Some b \<Rightarrow> Inr b)"

text \<open>The POST of the command bytes \<open>b\<close>: the endpoint chosen and the two form fields.\<close>

definition request_for :: "Connection \<Rightarrow> bytes \<Rightarrow> request" where
  "request_for c b =
     (let dat = [(lit ''database'', field_of (database c)), (lit ''query'', FieldBytes b)]
      in if startswith (lstrip (lower b)) ''select''
         then \<lparr>url = query_uri c, data = dat\<rparr>
         else \<lparr>url = exec_uri c, data = dat\<rparr>)"

definition execute_command :: "env \<Rightarrow> Connection \<Rightarrow> sql \<Rightarrow> (exn + unit) \<times> Connection" where
  "execute_command env c s =
     (if get_closed c then (Inl (Exn InterfaceError [PStr (lit ''Connection closed'')]), c)
      else
        case (case s of SqlStr t \<Rightarrow> encode_exn env (encoding c) Strict t | SqlBytes b \<Rightarrow> Inr b) of
          Inl e \<Rightarrow> (Inl e, c)
        | Inr b \<Rightarrow>
            let c1 = (if resp c \<noteq> None then c\<lparr>resp := None\<rparr> else c);
                req = request_for c1 b;
                c2 = c1\<lparr>session := (session c1)\<lparr>posted := posted (session c1) @ [req]\<rparr>\<rparr>
            in case post env req of
                 Inl msg \<Rightarrow>
                   (Inl (Exn InterfaceError [PStr (lit ''Request proxy err: '' @ msg)]), c2)
               | Inr r \<Rightarrow>
                   let c3 = c2\<lparr>resp := Some r\<rparr>
                   in case json r of
                        None \<Rightarrow>
                          (Inl (Exn InterfaceError
                                  [PStr (lit ''Proxy return invalid data''), PStr (reason r)]), c3)
                      | Some j \<Rightarrow> (Inr (), c3\<lparr>resp_json := Some j\<rparr>))"

subsection \<open>\<open>Connection._read_ok_packet\<close>\<close>

definition read_ok_packet :: "Connection \<Rightarrow> (exn + pyval) \<times> Connection" where
  "read_ok_packet c =
     (case resp_json c of
        None \<Rightarrow> (Inl (Exn AttributeError []), c)
      | Some j \<Rightarrow>
          (case getitem j (lit ''success'') of
             Inl e \<Rightarrow> (Inl e, c)
           | Inr s \<Rightarrow>
               let c1 = c\<lparr>server_status := Some s\<rparr>
               in if \<not> truthy s then
                    (case getitem j (lit ''status'') of
                       Inl e \<Rightarrow> (Inl e, c1)
                     | Inr st \<Rightarrow>
                         (Inl (Exn OperationalError [PStr (lit ''Syntax error''), st]), c1))
                  else
                    (case resp c1 of
                       None \<Rightarrow> (Inl (Exn AttributeError []), c1)
                     | Some r \<Rightarrow>
                         if \<not> ok r then
                           (Inl (Exn OperationalError
                                   [PStr (lit ''Proxy return false''), PStr (reason r)]), c1)
                         else (Inr s, c1))))"

subsection \<open>\<open>CovenantSQLResult\<close>\<close>

definition CovenantSQLResult_init :: CovenantSQLResult where
  "CovenantSQLResult_init =
     \<lparr>affected_rows = None, insert_id = None, warning_count = 0, message = None,
      field_count = 0, description = None, rows = None, has_next = None\<rparr>"

text \<open>The inner loop of \<open>read\<close>: the columns of one line are appended to \<open>row\<close>.\<close>

fun copy_columns :: "pyval list \<Rightarrow> pyval list \<Rightarrow> pyval list" where
  "copy_columns [] row = row"
| "copy_columns (column # line) row = copy_columns line (row @ [column])"

text \<open>The outer loop: each line becomes a tuple, appended to the list \<open>rows\<close> (here \<open>rws\<close>).\<close>

fun read_lines :: "pyval list \<Rightarrow> pyval list \<Rightarrow> exn + pyval list" where
  "read_lines [] rws = Inr rws"
| "read_lines (line # lines) rws =
     (case py_iter line of
        Inl e \<Rightarrow> Inl e
      | Inr columns \<Rightarrow> read_lines lines (rws @ [PTuple (copy_columns columns [])]))"

text \<open>
  \<open>CovenantSQLResult.read\<close>, on the result \<open>r\<close> of the connection \<open>c\<close>. The bare
  \<open>except\<close> turns every failure of \<open>_resp_json["data"]\<close> into an \<open>InterfaceError\<close>;
  \<open>data['rows']\<close> is evaluated twice, as in the source.
\<close>

definition read :: "Connection \<Rightarrow> CovenantSQLResult \<Rightarrow> (exn + unit) \<times> CovenantSQLResult" where
  "read c r =
     (case (case resp_json c of
              None \<Rightarrow> Inl (Exn AttributeError [])
            | Some j \<Rightarrow> getitem j (lit ''data'')) of
        Inl e \<Rightarrow> (Inl (Exn InterfaceError [PStr (lit ''Unsupported response format'')]), r)
      | Inr d \<Rightarrow>
          if d = PNone then (Inr (), r)
          else
            (case getitem d (lit ''rows'') of
               Inl e \<Rightarrow> (Inl e, r)
             | Inr rs \<Rightarrow>
                 (case py_len rs of
                    Inl e \<Rightarrow> (Inl e, r)
                  | Inr n \<Rightarrow>
                      let r1 = r\<lparr>affected_rows := Some n\<rparr>
                      in case getitem d (lit ''rows'') of
                           Inl e \<Rightarrow> (Inl e, r1)
                         | Inr rs' \<Rightarrow>
                             (case py_iter rs' of
                                Inl e \<Rightarrow> (Inl e, r1)
                              | Inr lines \<Rightarrow>
                                  (case read_lines lines [] of
                                     Inl e \<Rightarrow> (Inl e, r1)
                                   | Inr rws \<Rightarrow>
                                       (Inr (), r1\<lparr>rows := Some (PTuple rws)\<rparr>))))))"

subsection \<open>\<open>Connection._read_query_result\<close> and \<open>Connection.query\<close>\<close>

definition read_query_result :: "Connection \<Rightarrow> (exn + nat option) \<times> Connection" where
  "read_query_result c =
     (let c1 = c\<lparr>result := None\<rparr>
      in case read_ok_packet c1 of
           (Inl e, c2) \<Rightarrow> (Inl e, c2)
         | (Inr s, c2) \<Rightarrow>
             (case read c2 CovenantSQLResult_init of
                (Inl e, r) \<Rightarrow> (Inl e, c2)
              | (Inr u, r) \<Rightarrow> (Inr (affected_rows r), c2\<lparr>result := Some r\<rparr>)))"

text \<open>The first statement of \<open>query\<close>: a text argument is encoded, unless the runtime
  is Jython or IronPython.\<close>

definition encode_sql :: "env \<Rightarrow> Connection \<Rightarrow> sql \<Rightarrow> exn + sql" where
  "encode_sql env c s =
     (case s of
        SqlStr t \<Rightarrow>
          if \<not> (JYTHON env \<or> IRONPYTHON env) then
            (case (if PY2 env then encode_exn env (encoding c) Strict t
                   else encode_exn env (encoding c) SurrogateEscape t) of
               Inl e \<Rightarrow> Inl e
             | Inr b \<Rightarrow> Inr (SqlBytes b))
          else Inr s
      | SqlBytes b \<Rightarrow> Inr s)"

definition query :: "env \<Rightarrow> Connection \<Rightarrow> sql \<Rightarrow> (exn + nat option) \<times> Connection" where
  "query env c s =
     (case encode_sql env c s of
        Inl e \<Rightarrow> (Inl e, c)
      | Inr s' \<Rightarrow>
          (case execute_command env c s' of
             (Inl e, c1) \<Rightarrow> (Inl e, c1)
           | (Inr u, c1) \<Rightarrow>
               (case read_query_result c1 of
                  (Inl e, c2) \<Rightarrow> (Inl e, c2)
                | (Inr n, c2) \<Rightarrow> (Inr n, c2\<lparr>conn_affected_rows := n\<rparr>))))"

subsection \<open>\<open>connect\<close>, \<open>close\<close>, \<open>commit\<close>, \<open>rollback\<close>\<close>

definition connect :: "env \<Rightarrow> Connection \<Rightarrow> (exn + unit) \<times> Connection" where
  "connect env c =
     (let c0 = c\<lparr>closed := Some False, sock := Some True\<rparr>
      in case execute_command env c0 (str_literal env ''select 1;'') of
           (Inl e, c1) \<Rightarrow> (Inl e, c1)
         | (Inr u, c1) \<Rightarrow>
             (case read_ok_packet c1 of
                (Inl e, c2) \<Rightarrow> (Inl e, c2)
              | (Inr st, c2) \<Rightarrow> (Inr (), c2)))"

definition close :: "Connection \<Rightarrow> (exn + unit) \<times> Connection" where
  "close c =
     (if get_closed c then (Inl (Exn Error [PStr (lit ''Already closed'')]), c)
      else (Inr (), c\<lparr>sock := None, closed := Some True\<rparr>))"

definition commit :: "env \<Rightarrow> Connection \<Rightarrow> (exn + unit) \<times> Connection" where
  "commit env c =
     (case execute_command env c (str_literal env ''COMMIT'') of
        (Inl e, c1) \<Rightarrow> (Inl e, c1)
      | (Inr u, c1) \<Rightarrow>
          (case read_ok_packet c1 of
             (Inl e, c2) \<Rightarrow> (Inl e, c2)
           | (Inr st, c2) \<Rightarrow> (Inr (), c2)))"

definition rollback :: "env \<Rightarrow> Connection \<Rightarrow> (exn + unit) \<times> Connection" where
  "rollback env c =
     (case execute_command env c (str_literal env ''ROLLBACK'') of
        (Inl e, c1) \<Rightarrow> (Inl e, c1)
      | (Inr u, c1) \<Rightarrow>
          (case read_ok_packet c1 of
             (Inl e, c2) \<Rightarrow> (Inl e, c2)
           | (Inr st, c2) \<Rightarrow> (Inr (), c2)))"

subsection \<open>\<open>Connection.__init__\<close>\<close>

text \<open>\<open>x or d\<close> for an optional string \<open>x\<close>.\<close>

fun or_str :: "str option \<Rightarrow> str \<Rightarrow> str" where
  "or_str None d = d"
| "or_str (Some s) d = (if s \<noteq> [] then s else d)"

text \<open>The local function \<open>_config\<close>, for the options that are strings, and
  \<open>int(_config("port", port))\<close>.\<close>

definition config :: "env \<Rightarrow> str \<Rightarrow> str \<Rightarrow> str \<Rightarrow> str option \<Rightarrow> str option" where
  "config env file grp k arg =
     (if truthy_str arg then arg
      else case cfg_get env (expanduser env file) grp k of
             Some v \<Rightarrow> Some v
           | None \<Rightarrow> arg)"

definition config_port :: "env \<Rightarrow> str \<Rightarrow> str \<Rightarrow> int \<Rightarrow> exn + int" where
  "config_port env file grp p =
     (if p \<noteq> 0 then Inr p
      else case cfg_get env (expanduser env file) grp (lit ''port'') of
             Some v \<Rightarrow>
               (case py_int env v of
                  Inl q \<Rightarrow>
                    Inl (Exn ValueError
                           [PStr (lit ''invalid literal for int() with base 10: '' @ q)])
                | Inr n \<Rightarrow> Inr n)
           | None \<Rightarrow> Inr p)"

text \<open>Step 2 of the constructor: \<open>dsn\<close>, \<open>host\<close>, \<open>port\<close>, \<open>key\<close>, \<open>database\<close> and
  \<open>https_pem\<close> after the configuration file has been consulted.\<close>

definition read_config ::
  "env \<Rightarrow> str option \<Rightarrow> kwargs \<Rightarrow>
   exn + (str option \<times> str option \<times> int \<times> str option \<times> str option \<times> str option)" where
  "read_config env file kw =
     (if truthy_str file then
        (let f = or_str file [];
             grp = or_str (kw_read_default_group kw) (lit ''python-client'')
         in case config_port env f grp (kw_port kw) of
              Inl e \<Rightarrow> Inl e
            | Inr p \<Rightarrow>
                Inr (config env f grp (lit ''dsn'') (kw_dsn kw),
                     config env f grp (lit ''host'') (kw_host kw),
                     p,
                     config env f grp (lit ''key'') (kw_key kw),
                     config env f grp (lit ''database'') (kw_database kw),
                     config env f grp (lit ''https_pem'') (kw_https_pem kw)))
      else Inr (kw_dsn kw, kw_host kw, kw_port kw, kw_key kw, kw_database kw, kw_https_pem kw))"

text \<open>The checks of the three timeouts, in the order of the source.\<close>

definition timeout_error :: "kwargs \<Rightarrow> exn option" where
  "timeout_error kw =
     (if \<not> (int_less 0 (kw_connect_timeout kw) \<and>
             less_eq_int (kw_connect_timeout kw) 31536000) then
        Some (Exn ValueError [PStr (lit ''connect_timeout should be >0 and <=31536000'')])
      else if (case kw_read_timeout kw of None \<Rightarrow> False | Some t \<Rightarrow> less_eq_int t 0) then
        Some (Exn ValueError [PStr (lit ''read_timeout should be >= 0'')])
      else if (case kw_write_timeout kw of None \<Rightarrow> False | Some t \<Rightarrow> less_eq_int t 0) then
        Some (Exn ValueError [PStr (lit ''write_timeout should be >= 0'')])
      else None)"

text \<open>
  The attributes the constructor assigns before its last statement, from the arguments and
  the six options as the configuration file left them. \<open>_closed\<close>, \<open>_resp_json\<close> and
  \<open>server_status\<close> are not assigned; \<open>_sock\<close> is assigned by the last statement.
\<close>

definition new_connection ::
  "env \<Rightarrow> kwargs \<Rightarrow>
   str option \<times> str option \<times> int \<times> str option \<times> str option \<times> str option \<Rightarrow> Connection" where
  "new_connection env kw t =
     (case t of (dsn1, host1, port1, key1, database1, https_pem1) \<Rightarrow>
        let uu = (if kw_use_unicode kw = None \<and> 2 < version_major env then Some True
                  else kw_use_unicode kw);
            h = or_str host1 (lit ''localhost'');
            p = (if port1 \<noteq> 0 then port1 else 11108)
        in \<lparr>resp = None, encoding = lit ''utf8'', dsn = dsn1, host = h, port = p,
            key = key1, database = database1,
            query_uri = lit ''https://'' @ h @ lit '':'' @ str_int p @ lit ''/v1/query'',
            exec_uri = lit ''https://'' @ h @ lit '':'' @ str_int p @ lit ''/v1/exec'',
            session =
              \<lparr>verify = False,
               cert = (if truthy_str https_pem1 then CertPair (or_str https_pem1 []) key1
                       else CertKey key1),
               posted = []\<rparr>,
            connect_timeout =
              (if truthy_number (kw_connect_timeout kw) then Some (kw_connect_timeout kw)
               else None),
            read_timeout = kw_read_timeout kw,
            write_timeout = kw_write_timeout kw,
            use_unicode = uu, cursorclass = kw_cursorclass kw,
            result = None, conn_affected_rows = Some 0,
            autocommit_mode = kw_autocommit kw,
            sock = None, closed = None, resp_json = None, server_status = None\<rparr>)"

text \<open>
  The constructor returns the connection, or the exception it raises together with the
  POSTs that were sent before.
\<close>

definition Connection_init :: "env \<Rightarrow> kwargs \<Rightarrow> exn \<times> request list + Connection" where
  "Connection_init env kw =
     (let file = (if truthy_str (kw_read_default_group kw) \<and> \<not> truthy_str (kw_read_default_file kw)
                  then Some (lit ''covenant.cnf'') else kw_read_default_file kw)
      in case read_config env file kw of
           Inl e \<Rightarrow> Inl (e, [])
         | Inr t \<Rightarrow>
             (case timeout_error kw of
                Some e \<Rightarrow> Inl (e, [])
              | None \<Rightarrow>
                  let c = new_connection env kw t
                  in if kw_defer_connect kw then Inr (c\<lparr>sock := None\<rparr>)
                     else (case connect env c of
                             (Inl e, c1) \<Rightarrow> Inl (e, posted (session c1))
                           | (Inr u, c1) \<Rightarrow> Inr c1)))"

section \<open>Notions of the specification\<close>

text \<open>
  The dispatch step in the words of the specification: trim leading whitespace from the
  command bytes, then compare case-insensitively against the prefix \<open>select\<close>.
\<close>

definition spec_select :: "bytes \<Rightarrow> bool" where
  "spec_select b = (map lower_byte (take 6 (dropWhile isspace b)) = ''select'')"

text \<open>What no operation changes once the constructor has assigned it.\<close>

definition settings :: "Connection \<Rightarrow> str \<times> int \<times> str \<times> str \<times> str option \<times> str" where
  "settings c = (host c, port c, query_uri c, exec_uri c, database c, encoding c)"

definition uris_ok :: "Connection \<Rightarrow> bool" where
  "uris_ok c =
     (query_uri c = lit ''https://'' @ host c @ lit '':'' @ str_int (port c) @ lit ''/v1/query'' \<and>
      exec_uri c = lit ''https://'' @ host c @ lit '':'' @ str_int (port c) @ lit ''/v1/exec'')"

text \<open>
  The connections a caller can hold: built by the constructor, then used through the
  public operations, each in any environment and with any outcome.
\<close>

inductive reachable :: "Connection \<Rightarrow> bool" where
  reach_init: "Connection_init env kw = Inr c \<Longrightarrow> reachable c"
| reach_connect: "reachable c \<Longrightarrow> reachable (snd (connect env c))"
| reach_close: "reachable c \<Longrightarrow> reachable (snd (close c))"
| reach_commit: "reachable c \<Longrightarrow> reachable (snd (commit env c))"
| reach_rollback: "reachable c \<Longrightarrow> reachable (snd (rollback env c))"
| reach_query: "reachable c \<Longrightarrow> reachable (snd (query env c s))"

text \<open>The exception of \<open>_execute_command\<close> on a closed connection.\<close>

definition closed_error :: exn where
  "closed_error = Exn InterfaceError [PStr (lit ''Connection closed'')]"

text \<open>The connection \<open>c\<close> once the response \<open>r\<close>, of body \<open>j\<close>, to the command \<open>b\<close> is stored.\<close>

definition responded :: "Connection \<Rightarrow> bytes \<Rightarrow> response \<Rightarrow> pyval \<Rightarrow> Connection" where
  "responded c b r j =
     c\<lparr>resp := Some r,
       session := (session c)\<lparr>posted := posted (session c) @ [request_for c b]\<rparr>,
       resp_json := Some j\<rparr>"

section \<open>Example data\<close>

text \<open>
  An environment for the examples: the flags and the codec of CPython 3, \<open>int\<close> on
  unsigned decimal literals (the literal in quotes shown otherwise), no entry in any
  configuration file, and the transport given.
\<close>

fun digits_val :: "str \<Rightarrow> nat \<Rightarrow> nat option" where
  "digits_val [] acc = Some acc"
| "digits_val (d # ds) acc =
     (if 48 \<le> d \<and> d \<le> 57 then digits_val ds (10 * acc + (d - 48)) else None)"

definition example_env :: "(request \<Rightarrow> str + response) \<Rightarrow> env" where
  "example_env tr =
     \<lparr>PY2 = False, JYTHON = False, IRONPYTHON = False, version_major = 3,
      encode = (\<lambda>enc. utf8_encode),
      py_int = (\<lambda>s. case digits_val s 0 of
                       None \<Rightarrow> Inl ([39] @ s @ [39])
                     | Some n \<Rightarrow> if s = [] then Inl ([39] @ s @ [39]) else Inr (int n)),
      expanduser = (\<lambda>f. f), cfg_get = (\<lambda>f g k. None), post = tr\<rparr>"

text \<open>A transport that answers every request with status 200 and the body \<open>j\<close>.\<close>

definition answer :: "pyval \<Rightarrow> request \<Rightarrow> str + response" where
  "answer j req = Inr \<lparr>ok = True, reason = lit ''OK'', json = Some j\<rparr>"

text \<open>\<open>Connection(defer_connect=True)\<close> and the connection it builds.\<close>

definition deferred_kwargs :: kwargs where
  "deferred_kwargs = default_kwargs\<lparr>kw_defer_connect := True\<rparr>"

definition deferred_conn :: Connection where
  "deferred_conn =
     \<lparr>resp = None, encoding = lit ''utf8'', dsn = None, host = lit ''localhost'', port = 11108,
      key = None, database = None,
      query_uri = lit ''https://localhost:11108/v1/query'',
      exec_uri = lit ''https://localhost:11108/v1/exec'',
      session = \<lparr>verify = False, cert = CertKey None, posted = []\<rparr>,
      connect_timeout = Some (Finite 10), read_timeout = None, write_timeout = None,
      use_unicode = Some True, cursorclass = lit ''Cursor'',
      result = None, conn_affected_rows = Some 0, autocommit_mode = Some False,
      sock = None, closed = None, resp_json = None, server_status = None\<rparr>"

text \<open>The envelopes \<open>{"success": false, "status": "syntax error"}\<close> and
  \<open>{"success": true, "data": {"rows": [[1, "a"], [2, "b"]]}}\<close>.\<close>

definition syntax_error_envelope :: pyval where
  "syntax_error_envelope =
     PDict [(lit ''success'', PBool False), (lit ''status'', PStr (lit ''syntax error''))]"

definition two_rows_envelope :: pyval where
  "two_rows_envelope =
     PDict [(lit ''success'', PBool True),
            (lit ''data'',
             PDict [(lit ''rows'',
                     PList [PList [PInt 1, PStr (lit ''a'')], PList [PInt 2, PStr (lit ''b'')]])])]"





text \<open>The connection \<open>deferred_conn\<close> after \<open>close()\<close>.\<close>

definition closed_conn :: Connection where
  "closed_conn = deferred_conn\<lparr>sock := None, closed := Some True\<rparr>"

text \<open>The result of the envelope with two rows, the connection that holds it after a
  successful query, and the envelope \<open>{"success": true, "data": null}\<close>.\<close>

definition two_rows_result :: CovenantSQLResult where
  "two_rows_result =
     CovenantSQLResult_init
       \<lparr>affected_rows := Some 2,
        rows := Some (PTuple [PTuple [PInt 1, PStr (lit ''a'')],
                              PTuple [PInt 2, PStr (lit ''b'')]])\<rparr>"

definition prior_conn :: Connection where
  "prior_conn =
     snd (query (example_env (answer two_rows_envelope)) deferred_conn (SqlBytes ''select 1''))"

definition exec_envelope :: pyval where
  "exec_envelope = PDict [(lit ''success'', PBool True), (lit ''data'', PNone)]"

section \<open>Properties\<close>

lemma isspace_lower_byte: "isspace (lower_byte c) = isspace c"
  by (auto simp: isspace_def lower_byte_def)

lemma lstrip_lower: "lstrip (lower b) = lower (lstrip b)"
  by (induction b) (simp_all add: lstrip_def lower_def isspace_lower_byte)

lemma select_refines: "startswith (lstrip (lower b)) ''select'' = spec_select b"
proof -
  have "length (''select'' :: bytes) = 6" by simp
  then have "startswith (lstrip (lower b)) ''select'' = (take 6 (lower (lstrip b)) = ''select'')"
    by (simp only: startswith_def lstrip_lower)
  also have "take 6 (lower (lstrip b)) = map lower_byte (take 6 (dropWhile isspace b))"
    by (simp only: lower_def lstrip_def take_map)
  finally show ?thesis by (simp only: spec_select_def)
qed

lemma execute_command_settings:
  "execute_command env c s = (r, c') \<Longrightarrow> settings c' = settings c"
  by (auto simp: execute_command_def settings_def Let_def
           split: if_splits sum.splits option.splits sql.splits)

lemma read_ok_packet_settings:
  "read_ok_packet c = (r, c') \<Longrightarrow> settings c' = settings c"
  by (auto simp: read_ok_packet_def settings_def Let_def
           split: if_splits sum.splits option.splits)

lemma read_query_result_settings:
  assumes "read_query_result c = (r, c')"
  shows "settings c' = settings c"
proof -
  obtain r1 c1 where ok: "read_ok_packet (c\<lparr>result := None\<rparr>) = (r1, c1)"
    by (cases "read_ok_packet (c\<lparr>result := None\<rparr>)")
  from read_ok_packet_settings [OF ok] have "settings c1 = settings c"
    by (simp add: settings_def)
  with assms ok show ?thesis
    by (auto simp: read_query_result_def settings_def Let_def split: sum.splits prod.splits)
qed

lemma query_settings:
  assumes "query env c s = (r, c')"
  shows "settings c' = settings c"
proof (cases "encode_sql env c s")
  case (Inl e)
  with assms show ?thesis by (simp add: query_def)
next
  case (Inr s')
  obtain r1 c1 where ex: "execute_command env c s' = (r1, c1)"
    by (cases "execute_command env c s'")
  obtain r2 c2 where rq: "read_query_result c1 = (r2, c2)"
    by (cases "read_query_result c1")
  from execute_command_settings [OF ex] read_query_result_settings [OF rq]
  have "settings c1 = settings c" "settings c2 = settings c" by simp_all
  with assms Inr ex rq show ?thesis
    by (auto simp: query_def settings_def split: sum.splits)
qed

lemma command_settings:
  assumes "(case execute_command env c s of
              (Inl e, c1) \<Rightarrow> (Inl e, c1)
            | (Inr u, c1) \<Rightarrow>
                (case read_ok_packet c1 of
                   (Inl e, c2) \<Rightarrow> (Inl e, c2)
                 | (Inr st, c2) \<Rightarrow> (Inr (), c2))) = (r, c')"
  shows "settings c' = settings c"
proof -
  obtain r1 c1 where ex: "execute_command env c s = (r1, c1)"
    by (cases "execute_command env c s")
  obtain r2 c2 where ro: "read_ok_packet c1 = (r2, c2)"
    by (cases "read_ok_packet c1")
  from execute_command_settings [OF ex] read_ok_packet_settings [OF ro]
  have "settings c1 = settings c" "settings c2 = settings c" by simp_all
  with assms ex ro show ?thesis
    by (auto split: sum.splits)
qed

lemma commit_settings: "commit env c = (r, c') \<Longrightarrow> settings c' = settings c"
  unfolding commit_def by (rule command_settings)

lemma rollback_settings: "rollback env c = (r, c') \<Longrightarrow> settings c' = settings c"
  unfolding rollback_def by (rule command_settings)

lemma connect_settings:
  assumes "connect env c = (r, c')"
  shows "settings c' = settings c"
proof -
  from assms have "settings c' = settings (c\<lparr>closed := Some False, sock := Some True\<rparr>)"
    unfolding connect_def Let_def by (rule command_settings)
  then show ?thesis by (simp add: settings_def)
qed

lemma close_settings: "close c = (r, c') \<Longrightarrow> settings c' = settings c"
  by (auto simp: close_def settings_def split: if_splits)

lemma uris_ok_settings: "settings c' = settings c \<Longrightarrow> uris_ok c \<Longrightarrow> uris_ok c'"
  by (simp add: settings_def uris_ok_def)

lemma new_connection_props:
  "uris_ok (new_connection env kw t)"
  "closed (new_connection env kw t) = None"
  "posted (session (new_connection env kw t)) = []"
  "sock (new_connection env kw t) = None"
  "result (new_connection env kw t) = None"
  "resp (new_connection env kw t) = None"
  "encoding (new_connection env kw t) = lit ''utf8''"
  by (simp_all add: new_connection_def uris_ok_def Let_def split: prod.splits)

lemma Connection_init_Inr:
  assumes "Connection_init env kw = Inr c"
  obtains t where "timeout_error kw = None"
    and "if kw_defer_connect kw then c = new_connection env kw t
         else (\<exists>u. connect env (new_connection env kw t) = (Inr u, c))"
proof -
  let ?file = "if truthy_str (kw_read_default_group kw) \<and> \<not> truthy_str (kw_read_default_file kw)
               then Some (lit ''covenant.cnf'') else kw_read_default_file kw"
  from assms obtain t where rc: "read_config env ?file kw = Inr t"
    unfolding Connection_init_def Let_def by (cases "read_config env ?file kw") auto
  from assms rc have te: "timeout_error kw = None"
    unfolding Connection_init_def Let_def by (cases "timeout_error kw") auto
  have s: "(new_connection env kw t)\<lparr>sock := None\<rparr> = new_connection env kw t"
    by (simp add: new_connection_def Let_def split: prod.splits)
  from assms rc te s
  have "if kw_defer_connect kw then c = new_connection env kw t
        else (\<exists>u. connect env (new_connection env kw t) = (Inr u, c))"
    unfolding Connection_init_def Let_def
    by (cases "connect env (new_connection env kw t)") (auto split: sum.splits if_splits)
  with te show thesis by (rule that)
qed

lemma Connection_init_uris:
  assumes "Connection_init env kw = Inr c"
  shows "uris_ok c"
proof -
  from assms obtain t where
    *: "if kw_defer_connect kw then c = new_connection env kw t
        else (\<exists>u. connect env (new_connection env kw t) = (Inr u, c))"
    by (rule Connection_init_Inr)
  show ?thesis
  proof (cases "kw_defer_connect kw")
    case True
    with * show ?thesis by (simp add: new_connection_props)
  next
    case False
    with * obtain u where "connect env (new_connection env kw t) = (Inr u, c)" by auto
    from connect_settings [OF this] show ?thesis
      by (rule uris_ok_settings) (rule new_connection_props)
  qed
qed

lemma reachable_uris: "reachable c \<Longrightarrow> uris_ok c"
proof (induction rule: reachable.induct)
  case (reach_init env kw c)
  then show ?case by (rule Connection_init_uris)
next
  case (reach_connect c env)
  from connect_settings [OF surjective_pairing] reach_connect.IH show ?case
    by (rule uris_ok_settings)
next
  case (reach_close c)
  from close_settings [OF surjective_pairing] reach_close.IH show ?case
    by (rule uris_ok_settings)
next
  case (reach_commit c env)
  from commit_settings [OF surjective_pairing] reach_commit.IH show ?case
    by (rule uris_ok_settings)
next
  case (reach_rollback c env)
  from rollback_settings [OF surjective_pairing] reach_rollback.IH show ?case
    by (rule uris_ok_settings)
next
  case (reach_query c env s)
  from query_settings [OF surjective_pairing] reach_query.IH show ?case
    by (rule uris_ok_settings)
qed

lemma deferred_conn_init: "Connection_init (example_env tr) deferred_kwargs = Inr deferred_conn"
  by (simp add: Connection_init_def read_config_def timeout_error_def new_connection_def
      example_env_def deferred_kwargs_def default_kwargs_def deferred_conn_def lit_def str_int_def)

lemma request_for_resp: "request_for (c\<lparr>resp := None\<rparr>) b = request_for c b"
  by (simp add: request_for_def Let_def)

lemma execute_command_posted:
  assumes "\<not> get_closed c"
  shows "posted (session (snd (execute_command env c (SqlBytes b)))) =
           posted (session c) @ [request_for c b]"
  using assms
  by (simp add: execute_command_def Let_def request_for_resp split: sum.splits option.splits)

lemma execute_command_posted_str:
  assumes "\<not> get_closed c" and "encode env (encoding c) Strict t = Some b"
  shows "posted (session (snd (execute_command env c (SqlStr t)))) =
           posted (session c) @ [request_for c b]"
  using assms
  by (simp add: execute_command_def encode_exn_def Let_def request_for_resp
           split: sum.splits option.splits)

lemma spec_select_example: "spec_select ''  SELECT 1''"
  by code_simp

lemma deferred_conn_open: "\<not> get_closed deferred_conn"
  by (simp add: get_closed_def deferred_conn_def Connection_closed_def)

subsection \<open>Dispatch\<close>

text \<open>
  C1. On a reachable, not closed connection the command bytes \<open>b\<close> are posted to
  \<open>https://{host}:{port}/v1/query\<close> when, leading whitespace trimmed, they start with
  \<open>select\<close> in any letter case, and to \<open>https://{host}:{port}/v1/exec\<close> otherwise; the
  form carries the fields \<open>database\<close> and \<open>query\<close>. Executing the command sends exactly
  this request, for a bytes argument and for a text argument that encodes to \<open>b\<close>.
\<close>

theorem select_routes_to_query_endpoint:
  assumes "reachable c" and "\<not> get_closed c"
  shows "request_for c b =
           \<lparr>url = lit ''https://'' @ host c @ lit '':'' @ str_int (port c) @
                  (if spec_select b then lit ''/v1/query'' else lit ''/v1/exec''),
            data = [(lit ''database'', field_of (database c)), (lit ''query'', FieldBytes b)]\<rparr> \<and>
         posted (session (snd (execute_command env c (SqlBytes b)))) =
           posted (session c) @ [request_for c b] \<and>
         (\<forall>t. encode env (encoding c) Strict t = Some b \<longrightarrow>
              posted (session (snd (execute_command env c (SqlStr t)))) =
                posted (session c) @ [request_for c b])"
proof -
  from assms(1) have "uris_ok c" by (rule reachable_uris)
  then have "request_for c b =
           \<lparr>url = lit ''https://'' @ host c @ lit '':'' @ str_int (port c) @
                  (if spec_select b then lit ''/v1/query'' else lit ''/v1/exec''),
            data = [(lit ''database'', field_of (database c)), (lit ''query'', FieldBytes b)]\<rparr>"
    by (simp add: request_for_def uris_ok_def select_refines Let_def)
  with execute_command_posted [OF assms(2)] execute_command_posted_str [OF assms(2)]
  show ?thesis by blast
qed

theorem select_routes_to_query_endpoint_witness:
  "reachable deferred_conn \<and> \<not> get_closed deferred_conn \<and>
   request_for deferred_conn ''  SELECT 1'' =
     \<lparr>url = lit ''https://localhost:11108/v1/query'',
      data = [(lit ''database'', FieldNone), (lit ''query'', FieldBytes ''  SELECT 1'')]\<rparr> \<and>
   posted (session (snd (execute_command (example_env (answer PNone)) deferred_conn
                           (SqlBytes ''  SELECT 1'')))) =
     [\<lparr>url = lit ''https://localhost:11108/v1/query'',
       data = [(lit ''database'', FieldNone), (lit ''query'', FieldBytes ''  SELECT 1'')]\<rparr>]"
proof -
  have r: "reachable deferred_conn"
    using deferred_conn_init [of "answer PNone"] by (rule reach_init)
  have h: "host deferred_conn = lit ''localhost''" "port deferred_conn = 11108"
    "database deferred_conn = None" "posted (session deferred_conn) = []"
    by (simp_all add: deferred_conn_def)
  have s: "str_int 11108 = lit ''11108''" by (simp add: str_int_def lit_def)
  from select_routes_to_query_endpoint [OF r deferred_conn_open, of "''  SELECT 1''" "example_env (answer PNone)"]
  show ?thesis
    by (simp add: r deferred_conn_open spec_select_example h s field_of_def lit_def)
qed

subsection \<open>Validation\<close>

text \<open>
  C2. Reading the ok packet of a decoded envelope: when \<open>success\<close> is false the call
  raises an \<open>OperationalError\<close> carrying the envelope's \<open>status\<close>; when \<open>success\<close> is true
  and the transport response is not ok it raises an \<open>OperationalError\<close> carrying the
  response's reason phrase; it returns exactly when \<open>success\<close> is true and the response
  is ok.
\<close>

theorem read_ok_packet_validation:
  "(\<forall>j s st. resp_json c = Some j \<and> getitem j (lit ''success'') = Inr s \<and> \<not> truthy s \<and>
        getitem j (lit ''status'') = Inr st \<longrightarrow>
      fst (read_ok_packet c) = Inl (Exn OperationalError [PStr (lit ''Syntax error''), st])) \<and>
   (\<forall>j s r. resp_json c = Some j \<and> getitem j (lit ''success'') = Inr s \<and> truthy s \<and>
        resp c = Some r \<and> \<not> ok r \<longrightarrow>
      fst (read_ok_packet c) =
        Inl (Exn OperationalError [PStr (lit ''Proxy return false''), PStr (reason r)])) \<and>
   ((\<exists>v. fst (read_ok_packet c) = Inr v) \<longleftrightarrow>
      (\<exists>j s r. resp_json c = Some j \<and> getitem j (lit ''success'') = Inr s \<and> truthy s \<and>
         resp c = Some r \<and> ok r))"
  by (auto simp: read_ok_packet_def Let_def split: option.splits sum.splits)

theorem read_ok_packet_validation_witness:
  "fst (read_ok_packet (deferred_conn\<lparr>resp_json := Some syntax_error_envelope\<rparr>)) =
     Inl (Exn OperationalError [PStr (lit ''Syntax error''), PStr (lit ''syntax error'')])"
proof -
  let ?c = "deferred_conn\<lparr>resp_json := Some syntax_error_envelope\<rparr>"
  have h: "resp_json ?c = Some syntax_error_envelope \<and>
        getitem syntax_error_envelope (lit ''success'') = Inr (PBool False) \<and>
        \<not> truthy (PBool False) \<and>
        getitem syntax_error_envelope (lit ''status'') = Inr (PStr (lit ''syntax error''))"
    by (simp add: syntax_error_envelope_def lit_def)
  from read_ok_packet_validation [of ?c] h show ?thesis by blast
qed

subsection \<open>Materializing rows\<close>

lemma copy_columns_append: "copy_columns line row = row @ line"
  by (induction line arbitrary: row) simp_all

lemma read_lines_lists: "read_lines (map PList ls) rws = Inr (rws @ map PTuple ls)"
  by (induction ls arbitrary: rws) (simp_all add: copy_columns_append)

text \<open>
  C3. When the \<open>data\<close> member of the envelope holds under \<open>rows\<close> a list of lists,
  \<open>read\<close> returns normally, sets \<open>rows\<close> to the tuple of the tuples of the columns of each
  entry, entries and columns in the order of the envelope, and sets \<open>affected_rows\<close> to the
  number of entries.
\<close>

theorem read_materializes_rows:
  assumes "resp_json c = Some j"
    and "getitem j (lit ''data'') = Inr d"
    and "getitem d (lit ''rows'') = Inr (PList (map PList ls))"
  shows "read c r =
           (Inr (), r\<lparr>affected_rows := Some (length ls), rows := Some (PTuple (map PTuple ls))\<rparr>)"
proof -
  from assms(3) have "d \<noteq> PNone" by auto
  with assms show ?thesis
    by (simp add: read_def Let_def read_lines_lists)
qed

theorem read_materializes_rows_witness:
  "read (deferred_conn\<lparr>resp_json := Some two_rows_envelope\<rparr>) CovenantSQLResult_init =
     (Inr (), CovenantSQLResult_init
        \<lparr>affected_rows := Some 2,
         rows := Some (PTuple [PTuple [PInt 1, PStr (lit ''a'')],
                               PTuple [PInt 2, PStr (lit ''b'')]])\<rparr>)"
proof -
  let ?c = "deferred_conn\<lparr>resp_json := Some two_rows_envelope\<rparr>"
  let ?d = "PDict [(lit ''rows'',
                     PList [PList [PInt 1, PStr (lit ''a'')], PList [PInt 2, PStr (lit ''b'')]])]"
  have 1: "resp_json ?c = Some two_rows_envelope" by simp
  have 2: "getitem two_rows_envelope (lit ''data'') = Inr ?d"
    by (simp add: two_rows_envelope_def lit_def)
  have 3: "getitem ?d (lit ''rows'') =
             Inr (PList (map PList [[PInt 1, PStr (lit ''a'')], [PInt 2, PStr (lit ''b'')]]))"
    by simp
  from read_materializes_rows [OF 1 2 3, of CovenantSQLResult_init] show ?thesis by simp
qed

subsection \<open>Closing\<close>

text \<open>
  C7. \<open>close\<close> on a connection that is not closed sets \<open>_sock\<close> to \<open>None\<close> and the closed
  flag to true and returns; on a closed connection, so also when called a second time, it
  raises \<open>Error("Already closed")\<close> and changes nothing.
\<close>

theorem close_not_idempotent:
  "(\<not> get_closed c \<longrightarrow>
      close c = (Inr (), c\<lparr>sock := None, closed := Some True\<rparr>) \<and>
      get_closed (snd (close c)) \<and> sock (snd (close c)) = None \<and>
      fst (close (snd (close c))) = Inl (Exn Error [PStr (lit ''Already closed'')])) \<and>
   (get_closed c \<longrightarrow> close c = (Inl (Exn Error [PStr (lit ''Already closed'')]), c))"
  by (simp add: close_def get_closed_def)

theorem close_not_idempotent_witness:
  "\<not> get_closed deferred_conn \<and>
   close deferred_conn = (Inr (), deferred_conn\<lparr>sock := None, closed := Some True\<rparr>) \<and>
   get_closed (snd (close deferred_conn)) \<and>
   fst (close (snd (close deferred_conn))) = Inl (Exn Error [PStr (lit ''Already closed'')])"
  using close_not_idempotent [of deferred_conn] deferred_conn_open
  by blast

subsection \<open>Construction\<close>

lemma getitem_exn: "getitem v k = Inl (Exn cl a) \<Longrightarrow> cl = KeyError \<or> cl = TypeError"
  by (cases v) (auto split: option.splits)


lemma read_ok_packet_exn:
  "read_ok_packet c = (Inl (Exn cl a), c') \<Longrightarrow>
     cl = AttributeError \<or> cl = KeyError \<or> cl = TypeError \<or> cl = OperationalError"
  by (auto simp: read_ok_packet_def Let_def
           split: if_splits sum.splits option.splits dest: getitem_exn)










subsection \<open>What the operations leave unchanged\<close>

lemma execute_command_closed:
  "get_closed c \<Longrightarrow> execute_command env c s = (Inl closed_error, c)"
  by (simp add: execute_command_def closed_error_def)

lemma execute_command_kept:
  "execute_command env c s = (r, c') \<Longrightarrow>
     closed c' = closed c \<and> sock c' = sock c \<and> result c' = result c \<and>
     conn_affected_rows c' = conn_affected_rows c"
  by (auto simp: execute_command_def Let_def
           split: if_splits sum.splits option.splits sql.splits)

lemma read_ok_packet_kept:
  "read_ok_packet c = (r, c') \<Longrightarrow>
     closed c' = closed c \<and> sock c' = sock c \<and> result c' = result c \<and>
     conn_affected_rows c' = conn_affected_rows c \<and> session c' = session c \<and>
     resp c' = resp c \<and> resp_json c' = resp_json c"
  by (auto simp: read_ok_packet_def Let_def split: if_splits sum.splits option.splits)

lemma read_query_result_kept:
  assumes "read_query_result c = (r, c')"
  shows "closed c' = closed c \<and> sock c' = sock c \<and>
     conn_affected_rows c' = conn_affected_rows c \<and> session c' = session c \<and>
     resp c' = resp c \<and> resp_json c' = resp_json c"
proof -
  obtain r1 c1 where ok: "read_ok_packet (c\<lparr>result := None\<rparr>) = (r1, c1)"
    by (cases "read_ok_packet (c\<lparr>result := None\<rparr>)")
  from read_ok_packet_kept [OF ok]
  have k: "closed c1 = closed c \<and> sock c1 = sock c \<and>
     conn_affected_rows c1 = conn_affected_rows c \<and> session c1 = session c \<and>
     resp c1 = resp c \<and> resp_json c1 = resp_json c" by simp
  from assms ok have "c' = c1 \<or> (\<exists>x. c' = c1\<lparr>result := x\<rparr>)"
    by (auto simp: read_query_result_def Let_def split: sum.splits prod.splits)
  with k show ?thesis by auto
qed

text \<open>The two calls \<open>commit\<close>, \<open>rollback\<close> and \<open>connect\<close> are made of.\<close>

lemma command_cases:
  assumes "(case execute_command env c s of
              (Inl e, c1) \<Rightarrow> (Inl e, c1)
            | (Inr u, c1) \<Rightarrow>
                (case read_ok_packet c1 of
                   (Inl e, c2) \<Rightarrow> (Inl e, c2)
                 | (Inr st, c2) \<Rightarrow> (Inr (), c2))) = (r, c')"
  obtains e where "execute_command env c s = (Inl e, c')" and "r = Inl e"
  | u c1 r2 where "execute_command env c s = (Inr u, c1)" and "read_ok_packet c1 = (r2, c')"
      and "r = (case r2 of Inl e \<Rightarrow> Inl e | Inr st \<Rightarrow> Inr ())"
proof -
  obtain r1 c1 where ex: "execute_command env c s = (r1, c1)"
    by (cases "execute_command env c s")
  obtain r2 c2 where ro: "read_ok_packet c1 = (r2, c2)"
    by (cases "read_ok_packet c1")
  show thesis
  proof (cases r1)
    case (Inl e)
    with assms ex show ?thesis by (intro that(1) [of e]) auto
  next
    case (Inr u)
    with assms ex ro show ?thesis
      by (intro that(2) [of u c1 r2]) (auto split: sum.splits)
  qed
qed

lemma command_kept:
  assumes "(case execute_command env c s of
              (Inl e, c1) \<Rightarrow> (Inl e, c1)
            | (Inr u, c1) \<Rightarrow>
                (case read_ok_packet c1 of
                   (Inl e, c2) \<Rightarrow> (Inl e, c2)
                 | (Inr st, c2) \<Rightarrow> (Inr (), c2))) = (r, c')"
  shows "closed c' = closed c \<and> sock c' = sock c \<and> result c' = result c \<and>
     conn_affected_rows c' = conn_affected_rows c \<and>
     session c' = session (snd (execute_command env c s))"
  using assms
proof (cases rule: command_cases)
  case (1 e)
  with execute_command_kept [OF 1(1)] show ?thesis by simp
next
  case (2 u c1 r2)
  with execute_command_kept [OF 2(1)] read_ok_packet_kept [OF 2(2)] show ?thesis by simp
qed

lemma commit_kept:
  "closed (snd (commit env c)) = closed c \<and> sock (snd (commit env c)) = sock c \<and>
   result (snd (commit env c)) = result c \<and>
   conn_affected_rows (snd (commit env c)) = conn_affected_rows c \<and>
   session (snd (commit env c)) = session (snd (execute_command env c (str_literal env ''COMMIT'')))"
  by (rule command_kept [of env c "str_literal env ''COMMIT''" "fst (commit env c)"])
     (simp add: commit_def)

lemma rollback_kept:
  "closed (snd (rollback env c)) = closed c \<and> sock (snd (rollback env c)) = sock c \<and>
   result (snd (rollback env c)) = result c \<and>
   conn_affected_rows (snd (rollback env c)) = conn_affected_rows c \<and>
   session (snd (rollback env c)) =
     session (snd (execute_command env c (str_literal env ''ROLLBACK'')))"
  by (rule command_kept [of env c "str_literal env ''ROLLBACK''" "fst (rollback env c)"])
     (simp add: rollback_def)

lemma connect_closed: "closed (snd (connect env c)) = Some False"
proof -
  let ?c0 = "c\<lparr>closed := Some False, sock := Some True\<rparr>"
  have "closed (snd (connect env c)) = closed ?c0"
    using command_kept [of env ?c0 "str_literal env ''select 1;''" "fst (connect env c)"
        "snd (connect env c)"]
    by (simp add: connect_def Let_def)
  then show ?thesis by simp
qed

lemma query_kept:
  "closed (snd (query env c s)) = closed c \<and> sock (snd (query env c s)) = sock c"
proof (cases "encode_sql env c s")
  case (Inl e)
  then show ?thesis by (simp add: query_def)
next
  case (Inr s')
  obtain r1 c1 where ex: "execute_command env c s' = (r1, c1)"
    by (cases "execute_command env c s'")
  obtain r2 c2 where rq: "read_query_result c1 = (r2, c2)"
    by (cases "read_query_result c1")
  from execute_command_kept [OF ex] read_query_result_kept [OF rq] Inr ex rq
  show ?thesis
    by (auto simp: query_def split: sum.splits)
qed

subsection \<open>The closed connection\<close>

lemma commit_closed: "get_closed c \<Longrightarrow> commit env c = (Inl closed_error, c)"
  by (simp add: commit_def execute_command_closed)

lemma rollback_closed: "get_closed c \<Longrightarrow> rollback env c = (Inl closed_error, c)"
  by (simp add: rollback_def execute_command_closed)

lemma query_closed:
  "get_closed c \<Longrightarrow>
     query env c s =
       (case encode_sql env c s of Inl e \<Rightarrow> (Inl e, c) | Inr s' \<Rightarrow> (Inl closed_error, c))"
  by (simp add: query_def execute_command_closed split: sum.splits)

lemma encode_sql_bytes: "encode_sql env c (SqlBytes b) = Inr (SqlBytes b)"
  by (simp add: encode_sql_def)

lemma encode_sql_exn:
  "encode_sql env c s = Inl e \<Longrightarrow> e = Exn UnicodeEncodeError []"
  by (auto simp: encode_sql_def encode_exn_def split: sql.splits if_splits option.splits sum.splits)

text \<open>
  C6, as the code has it. On a closed connection \<open>commit\<close>, \<open>rollback\<close> and \<open>query\<close> of
  a bytes argument, or of a text argument the codec accepts, raise
  \<open>InterfaceError("Connection closed")\<close> and leave the connection as it was, the history of
  the session included, so nothing is sent. \<open>query\<close> encodes a text argument before the
  closed flag is looked at: text the codec refuses raises \<open>UnicodeEncodeError\<close> instead, also
  with nothing sent.
\<close>

theorem closed_connection_rejects_commands:
  assumes "get_closed c"
  shows "commit env c = (Inl (Exn InterfaceError [PStr (lit ''Connection closed'')]), c) \<and>
         rollback env c = (Inl (Exn InterfaceError [PStr (lit ''Connection closed'')]), c) \<and>
         (\<forall>b. query env c (SqlBytes b) =
                (Inl (Exn InterfaceError [PStr (lit ''Connection closed'')]), c)) \<and>
         (\<forall>t. query env c (SqlStr t) =
                (if encode_sql env c (SqlStr t) = Inl (Exn UnicodeEncodeError [])
                 then (Inl (Exn UnicodeEncodeError []), c)
                 else (Inl (Exn InterfaceError [PStr (lit ''Connection closed'')]), c)))"
proof -
  have "query env c (SqlStr t) =
          (if encode_sql env c (SqlStr t) = Inl (Exn UnicodeEncodeError [])
           then (Inl (Exn UnicodeEncodeError []), c)
           else (Inl closed_error, c))" for t
    using query_closed [OF assms, of env "SqlStr t"] encode_sql_exn [of env c "SqlStr t"]
    by (cases "encode_sql env c (SqlStr t)") auto
  with commit_closed [OF assms] rollback_closed [OF assms] query_closed [OF assms]
  show ?thesis
    by (simp add: closed_error_def encode_sql_bytes)
qed

lemma closed_conn_closed: "get_closed closed_conn"
  by (simp add: closed_conn_def get_closed_def)

lemma close_deferred_conn: "close deferred_conn = (Inr (), closed_conn)"
  by (simp add: close_def deferred_conn_open closed_conn_def)

lemma lone_surrogate:
  "encode_sql (example_env tr) closed_conn (SqlStr [0xD800]) = Inl (Exn UnicodeEncodeError [])"
  by (simp add: encode_sql_def encode_exn_def example_env_def utf8_char_def)

lemma select_encodes:
  "encode_sql (example_env tr) closed_conn (SqlStr (lit ''select 1'')) = Inr (SqlBytes ''select 1'')"
  by (simp add: encode_sql_def encode_exn_def example_env_def) code_simp

theorem closed_connection_rejects_commands_witness:
  "get_closed closed_conn \<and>
   commit (example_env (answer PNone)) closed_conn =
     (Inl (Exn InterfaceError [PStr (lit ''Connection closed'')]), closed_conn) \<and>
   query (example_env (answer PNone)) closed_conn (SqlStr (lit ''select 1'')) =
     (Inl (Exn InterfaceError [PStr (lit ''Connection closed'')]), closed_conn) \<and>
   query (example_env (answer PNone)) closed_conn (SqlStr [0xD800]) =
     (Inl (Exn UnicodeEncodeError []), closed_conn)"
  using closed_connection_rejects_commands [OF closed_conn_closed, of "example_env (answer PNone)"]
    closed_conn_closed lone_surrogate [of "answer PNone"] select_encodes [of "answer PNone"]
  by simp

text \<open>
  C6 as stated fails: after \<open>close()\<close>, \<open>query\<close> of the text made of the lone surrogate
  U+D800 raises \<open>UnicodeEncodeError\<close> under CPython 3, not an \<open>InterfaceError\<close>.
\<close>

theorem closed_query_unencodable_counterexample:
  "get_closed closed_conn \<and>
   close deferred_conn = (Inr (), closed_conn) \<and>
   fst (query (example_env (answer PNone)) closed_conn (SqlStr [0xD800])) =
     Inl (Exn UnicodeEncodeError []) \<and>
   fst (query (example_env (answer PNone)) closed_conn (SqlStr [0xD800])) \<noteq>
     Inl (Exn InterfaceError [PStr (lit ''Connection closed'')])"
  by (simp add: closed_conn_closed close_deferred_conn query_closed lone_surrogate)

text \<open>
  C5 as stated fails: \<open>connect()\<close> after \<open>close()\<close> leaves a connection that is not closed.
\<close>

theorem closed_not_terminal_counterexample:
  "close deferred_conn = (Inr (), closed_conn) \<and> get_closed closed_conn \<and>
   \<not> get_closed (snd (connect (example_env (answer PNone)) closed_conn))"
proof -
  have "\<not> get_closed (snd (connect (example_env (answer PNone)) closed_conn))"
    by (simp add: get_closed_def connect_closed)
  with close_deferred_conn closed_conn_closed show ?thesis by simp
qed

subsection \<open>The outcome of a command\<close>

lemma execute_command_responded:
  assumes "\<not> get_closed c" and "post env (request_for c b) = Inr r" and "json r = Some j"
  shows "execute_command env c (SqlBytes b) = (Inr (), responded c b r j)"
  using assms
  by (simp add: execute_command_def responded_def Let_def request_for_resp)

lemma execute_command_transport_error:
  assumes "\<not> get_closed c" and "post env (request_for c b) = Inl msg"
  shows "execute_command env c (SqlBytes b) =
           (Inl (Exn InterfaceError [PStr (lit ''Request proxy err: '' @ msg)]),
            c\<lparr>resp := None,
              session := (session c)\<lparr>posted := posted (session c) @ [request_for c b]\<rparr>\<rparr>)"
  using assms
  by (simp add: execute_command_def Let_def request_for_resp)

lemma execute_command_resp:
  assumes "\<not> get_closed c" and "post env (request_for c b) = Inr r"
  shows "resp (snd (execute_command env c (SqlBytes b))) = Some r"
  using assms
  by (simp add: execute_command_def Let_def request_for_resp split: option.splits)

lemma read_query_result_failed:
  assumes "read_query_result c = (Inl e, c')"
  shows "result c' = None"
proof -
  obtain r1 c1 where ok: "read_ok_packet (c\<lparr>result := None\<rparr>) = (r1, c1)"
    by (cases "read_ok_packet (c\<lparr>result := None\<rparr>)")
  from read_ok_packet_kept [OF ok] have "result c1 = None" by simp
  with assms ok show ?thesis
    by (auto simp: read_query_result_def Let_def split: sum.splits prod.splits)
qed

lemma query_failed_after_dispatch:
  assumes "encode_sql env c s = Inr s'" and "execute_command env c s' = (Inr u, c1)"
    and "query env c s = (Inl e, c2)"
  shows "result c2 = None \<and> conn_affected_rows c2 = conn_affected_rows c \<and>
         resp c2 = resp c1 \<and> resp_json c2 = resp_json c1 \<and> session c2 = session c1"
proof -
  obtain r2 c3 where rq: "read_query_result c1 = (r2, c3)"
    by (cases "read_query_result c1")
  from assms rq have "r2 = Inl e" and "c3 = c2"
    by (auto simp: query_def split: sum.splits)
  with rq have f: "read_query_result c1 = (Inl e, c2)" by simp
  from read_query_result_failed [OF f] read_query_result_kept [OF f]
    execute_command_kept [OF assms(2)]
  show ?thesis by simp
qed

text \<open>
  C4, as the code has it. A \<open>query\<close> that fails after its dispatch succeeded (in the
  validation or in \<open>read\<close>) leaves the stored result unset, whatever it was before, keeps the
  stored row count, and holds the new response and envelope. \<open>commit\<close> and \<open>rollback\<close>
  never change the stored result. The previous response is dropped before the request is
  sent: after a transport error no response is held, and after an answer the new response is.
\<close>

theorem failed_query_clears_result:
  "(\<forall>s' u c1 e c2.
      encode_sql env c s = Inr s' \<and> execute_command env c s' = (Inr u, c1) \<and>
      query env c s = (Inl e, c2) \<longrightarrow>
        result c2 = None \<and> conn_affected_rows c2 = conn_affected_rows c \<and>
        resp c2 = resp c1 \<and> resp_json c2 = resp_json c1) \<and>
   result (snd (commit env c)) = result c \<and>
   result (snd (rollback env c)) = result c \<and>
   (\<forall>b msg. \<not> get_closed c \<and> post env (request_for c b) = Inl msg \<longrightarrow>
      resp (snd (execute_command env c (SqlBytes b))) = None) \<and>
   (\<forall>b r. \<not> get_closed c \<and> post env (request_for c b) = Inr r \<longrightarrow>
      resp (snd (execute_command env c (SqlBytes b))) = Some r)"
proof (intro conjI allI impI)
  fix s' u c1 e c2
  assume "encode_sql env c s = Inr s' \<and> execute_command env c s' = (Inr u, c1) \<and>
      query env c s = (Inl e, c2)"
  then have "result c2 = None \<and> conn_affected_rows c2 = conn_affected_rows c \<and>
         resp c2 = resp c1 \<and> resp_json c2 = resp_json c1 \<and> session c2 = session c1"
    using query_failed_after_dispatch by blast
  then show "result c2 = None" "conn_affected_rows c2 = conn_affected_rows c"
    "resp c2 = resp c1" "resp_json c2 = resp_json c1" by simp_all
next
  show "result (snd (commit env c)) = result c" by (simp add: commit_kept)
next
  show "result (snd (rollback env c)) = result c" by (simp add: rollback_kept)
next
  fix b msg
  assume "\<not> get_closed c \<and> post env (request_for c b) = Inl msg"
  then show "resp (snd (execute_command env c (SqlBytes b))) = None"
    by (simp add: execute_command_transport_error)
next
  fix b r
  assume "\<not> get_closed c \<and> post env (request_for c b) = Inr r"
  then show "resp (snd (execute_command env c (SqlBytes b))) = Some r"
    by (simp add: execute_command_resp)
qed

lemma read_ok_packet_ok:
  assumes "resp_json c = Some j" and "getitem j (lit ''success'') = Inr sv" and "truthy sv"
    and "resp c = Some r" and "ok r"
  shows "read_ok_packet c = (Inr sv, c\<lparr>server_status := Some sv\<rparr>)"
  using assms by (simp add: read_ok_packet_def Let_def)

lemma read_ok_packet_syntax_error:
  assumes "resp_json c = Some j" and "getitem j (lit ''success'') = Inr sv" and "\<not> truthy sv"
    and "getitem j (lit ''status'') = Inr st"
  shows "read_ok_packet c =
           (Inl (Exn OperationalError [PStr (lit ''Syntax error''), st]),
            c\<lparr>server_status := Some sv\<rparr>)"
  using assms by (simp add: read_ok_packet_def Let_def)

lemma read_null:
  assumes "resp_json c = Some j" and "getitem j (lit ''data'') = Inr PNone"
  shows "read c r = (Inr (), r)"
  using assms by (simp add: read_def)

lemma responded_fields:
  "resp (responded c b r j) = Some r" "resp_json (responded c b r j) = Some j"
  "result (responded c b r j) = result c"
  "conn_affected_rows (responded c b r j) = conn_affected_rows c"
  "closed (responded c b r j) = closed c"
  "posted (session (responded c b r j)) = posted (session c) @ [request_for c b]"
  by (simp_all add: responded_def)

lemma query_responded:
  assumes "\<not> get_closed c" and "encode_sql env c s = Inr (SqlBytes b)"
    and "post env (request_for c b) = Inr r" and "json r = Some j"
  shows "query env c s =
           (case read_query_result (responded c b r j) of
              (Inl e, c2) \<Rightarrow> (Inl e, c2)
            | (Inr n, c2) \<Rightarrow> (Inr n, c2\<lparr>conn_affected_rows := n\<rparr>))"
  using assms execute_command_responded [OF assms(1,3,4)]
  by (simp add: query_def)

lemma query_syntax_error:
  assumes "\<not> get_closed c" and "encode_sql env c s = Inr (SqlBytes b)"
    and "post env (request_for c b) = Inr r" and "json r = Some j"
    and "getitem j (lit ''success'') = Inr sv" and "\<not> truthy sv"
    and "getitem j (lit ''status'') = Inr st"
  shows "fst (query env c s) = Inl (Exn OperationalError [PStr (lit ''Syntax error''), st])"
    and "result (snd (query env c s)) = None"
    and "conn_affected_rows (snd (query env c s)) = conn_affected_rows c"
proof -
  let ?c1 = "(responded c b r j)\<lparr>result := None\<rparr>"
  have "read_ok_packet ?c1 =
          (Inl (Exn OperationalError [PStr (lit ''Syntax error''), st]),
           ?c1\<lparr>server_status := Some sv\<rparr>)"
    using assms(5-7) by (intro read_ok_packet_syntax_error [of _ j]) (simp_all add: responded_fields)
  then have rq: "read_query_result (responded c b r j) =
          (Inl (Exn OperationalError [PStr (lit ''Syntax error''), st]),
           ?c1\<lparr>server_status := Some sv\<rparr>)"
    by (simp add: read_query_result_def Let_def)
  from query_responded [OF assms(1-4)] rq
  show "fst (query env c s) = Inl (Exn OperationalError [PStr (lit ''Syntax error''), st])"
    and "result (snd (query env c s)) = None"
    and "conn_affected_rows (snd (query env c s)) = conn_affected_rows c"
    by (simp_all add: responded_fields)
qed

lemma query_ok:
  assumes "\<not> get_closed c" and "encode_sql env c s = Inr (SqlBytes b)"
    and "post env (request_for c b) = Inr r" and "ok r" and "json r = Some j"
    and "getitem j (lit ''success'') = Inr sv" and "truthy sv"
    and "read ((responded c b r j)\<lparr>result := None, server_status := Some sv\<rparr>)
           CovenantSQLResult_init = (Inr (), res)"
  shows "fst (query env c s) = Inr (affected_rows res)"
    and "result (snd (query env c s)) = Some res"
    and "conn_affected_rows (snd (query env c s)) = affected_rows res"
proof -
  let ?c1 = "(responded c b r j)\<lparr>result := None\<rparr>"
  have "read_ok_packet ?c1 = (Inr sv, ?c1\<lparr>server_status := Some sv\<rparr>)"
    using assms(4-7) by (intro read_ok_packet_ok [of _ j _ r]) (simp_all add: responded_fields)
  with assms(8) have rq: "read_query_result (responded c b r j) =
          (Inr (affected_rows res), ?c1\<lparr>server_status := Some sv, result := Some res\<rparr>)"
    by (simp add: read_query_result_def Let_def)
  from query_responded [OF assms(1-3,5)] rq
  show "fst (query env c s) = Inr (affected_rows res)"
    and "result (snd (query env c s)) = Some res"
    and "conn_affected_rows (snd (query env c s)) = affected_rows res"
    by simp_all
qed

text \<open>
  C8. On a connection that is not closed, when the transport answers ok with an envelope
  whose \<open>success\<close> is true and whose \<open>data\<close> is \<open>null\<close>, \<open>read\<close> leaves the result as it
  is, so \<open>rows\<close> and \<open>affected_rows\<close> stay unset, and \<open>query\<close> returns normally with the
  unset row count, which it also stores.
\<close>

theorem exec_envelope_leaves_rows_unset:
  assumes "\<not> get_closed c" and "encode_sql env c s = Inr (SqlBytes b)"
    and "post env (request_for c b) = Inr r" and "ok r" and "json r = Some j"
    and "getitem j (lit ''success'') = Inr sv" and "truthy sv"
    and "getitem j (lit ''data'') = Inr PNone"
  shows "(\<forall>c' res. resp_json c' = Some j \<longrightarrow> read c' res = (Inr (), res)) \<and>
         fst (query env c s) = Inr None \<and>
         result (snd (query env c s)) = Some CovenantSQLResult_init \<and>
         rows CovenantSQLResult_init = None \<and>
         affected_rows CovenantSQLResult_init = None \<and>
         conn_affected_rows (snd (query env c s)) = None"
proof -
  have rd: "read c' res = (Inr (), res)" if "resp_json c' = Some j" for c' res
    using that assms(8) by (rule read_null)
  have "read ((responded c b r j)\<lparr>result := None, server_status := Some sv\<rparr>)
           CovenantSQLResult_init = (Inr (), CovenantSQLResult_init)"
    by (rule rd) (simp add: responded_fields)
  from query_ok [OF assms(1-7) this] rd show ?thesis
    by (simp add: CovenantSQLResult_init_def)
qed

lemma example_post: "post (example_env (answer j)) req = Inr \<lparr>ok = True, reason = lit ''OK'', json = Some j\<rparr>"
  by (simp add: example_env_def answer_def)

lemma read_rows_lists:
  assumes "resp_json c = Some j"
    and "getitem j (lit ''data'') = Inr d"
    and "getitem d (lit ''rows'') = Inr (PList (map PList ls))"
  shows "read c r =
           (Inr (), r\<lparr>affected_rows := Some (length ls), rows := Some (PTuple (map PTuple ls))\<rparr>)"
proof -
  from assms(3) have "d \<noteq> PNone" by auto
  with assms show ?thesis
    by (simp add: read_def Let_def read_lines_lists)
qed

lemma two_rows_read:
  assumes "resp_json c = Some two_rows_envelope"
  shows "read c CovenantSQLResult_init = (Inr (), two_rows_result)"
proof -
  let ?d = "PDict [(lit ''rows'',
                     PList [PList [PInt 1, PStr (lit ''a'')], PList [PInt 2, PStr (lit ''b'')]])]"
  have 2: "getitem two_rows_envelope (lit ''data'') = Inr ?d"
    by (simp add: two_rows_envelope_def lit_def)
  have 3: "getitem ?d (lit ''rows'') =
             Inr (PList (map PList [[PInt 1, PStr (lit ''a'')], [PInt 2, PStr (lit ''b'')]]))"
    by simp
  from read_rows_lists [OF assms 2 3, of CovenantSQLResult_init] show ?thesis
    by (simp add: two_rows_result_def)
qed

lemma prior_conn_props:
  "result prior_conn = Some two_rows_result"
  "conn_affected_rows prior_conn = Some 2"
  "\<not> get_closed prior_conn"
proof -
  let ?r = "\<lparr>ok = True, reason = lit ''OK'', json = Some two_rows_envelope\<rparr>"
  have s: "getitem two_rows_envelope (lit ''success'') = Inr (PBool True)"
    by (simp add: two_rows_envelope_def lit_def)
  have rd: "read ((responded deferred_conn ''select 1'' ?r two_rows_envelope)
                    \<lparr>result := None, server_status := Some (PBool True)\<rparr>)
              CovenantSQLResult_init = (Inr (), two_rows_result)"
    by (rule two_rows_read) (simp add: responded_fields)
  have q: "result prior_conn = Some two_rows_result \<and>
           conn_affected_rows prior_conn = affected_rows two_rows_result"
    unfolding prior_conn_def
    using query_ok [OF deferred_conn_open encode_sql_bytes example_post _ _ s _ rd]
    by simp
  then show "result prior_conn = Some two_rows_result" by simp
  from q show "conn_affected_rows prior_conn = Some 2"
    by (simp add: two_rows_result_def)
  show "\<not> get_closed prior_conn"
    using query_kept [of "example_env (answer two_rows_envelope)" deferred_conn "SqlBytes ''select 1''"]
      deferred_conn_open
    by (simp add: prior_conn_def get_closed_def)
qed

lemma syntax_error_envelope_items:
  "getitem syntax_error_envelope (lit ''success'') = Inr (PBool False)"
  "getitem syntax_error_envelope (lit ''status'') = Inr (PStr (lit ''syntax error''))"
  by (simp_all add: syntax_error_envelope_def lit_def)

text \<open>
  C4 as stated fails: a connection holds the result of two rows; the next \<open>query\<close> is
  dispatched, its envelope says \<open>success: false\<close>, and the stored result is gone.
\<close>

theorem failed_query_destroys_result_counterexample:
  "result prior_conn = Some two_rows_result \<and>
   fst (query (example_env (answer syntax_error_envelope)) prior_conn (SqlBytes ''select x'')) =
     Inl (Exn OperationalError [PStr (lit ''Syntax error''), PStr (lit ''syntax error'')]) \<and>
   result (snd (query (example_env (answer syntax_error_envelope)) prior_conn
                  (SqlBytes ''select x''))) = None"
  using query_syntax_error [OF prior_conn_props(3) encode_sql_bytes example_post _
      syntax_error_envelope_items(1) _ syntax_error_envelope_items(2)]
    prior_conn_props(1)
  by simp

theorem failed_query_clears_result_witness:
  "fst (query (example_env (answer syntax_error_envelope)) prior_conn (SqlBytes ''select x'')) =
     Inl (Exn OperationalError [PStr (lit ''Syntax error''), PStr (lit ''syntax error'')]) \<and>
   result (snd (query (example_env (answer syntax_error_envelope)) prior_conn
                  (SqlBytes ''select x''))) = None \<and>
   conn_affected_rows (snd (query (example_env (answer syntax_error_envelope)) prior_conn
                  (SqlBytes ''select x''))) = Some 2 \<and>
   result (snd (commit (example_env (answer syntax_error_envelope)) prior_conn)) =
     Some two_rows_result"
proof -
  let ?env = "example_env (answer syntax_error_envelope)"
  let ?s = "SqlBytes ''select x''"
  let ?r = "\<lparr>ok = True, reason = lit ''OK'', json = Some syntax_error_envelope\<rparr>"
  let ?e = "Exn OperationalError [PStr (lit ''Syntax error''), PStr (lit ''syntax error'')]"
  have f: "fst (query ?env prior_conn ?s) = Inl ?e"
    using query_syntax_error(1) [OF prior_conn_props(3) encode_sql_bytes example_post _
      syntax_error_envelope_items(1) _ syntax_error_envelope_items(2)]
    by simp
  then have q: "query ?env prior_conn ?s = (Inl ?e, snd (query ?env prior_conn ?s))"
    by (metis prod.collapse)
  have x: "execute_command ?env prior_conn ?s =
             (Inr (), responded prior_conn ''select x'' ?r syntax_error_envelope)"
    by (rule execute_command_responded [OF prior_conn_props(3) example_post]) simp
  have h: "encode_sql ?env prior_conn ?s = Inr ?s \<and>
           execute_command ?env prior_conn ?s =
             (Inr (), responded prior_conn ''select x'' ?r syntax_error_envelope) \<and>
           query ?env prior_conn ?s = (Inl ?e, snd (query ?env prior_conn ?s))"
    using q x by (simp add: encode_sql_bytes)
  from failed_query_clears_result [of ?env prior_conn ?s] h
  have "result (snd (query ?env prior_conn ?s)) = None \<and>
        conn_affected_rows (snd (query ?env prior_conn ?s)) = conn_affected_rows prior_conn \<and>
        result (snd (commit ?env prior_conn)) = result prior_conn"
    by blast
  with f prior_conn_props show ?thesis by simp
qed

theorem exec_envelope_leaves_rows_unset_witness:
  "\<not> get_closed deferred_conn \<and>
   fst (query (example_env (answer exec_envelope)) deferred_conn
          (SqlBytes ''insert into t values (1)'')) = Inr None \<and>
   result (snd (query (example_env (answer exec_envelope)) deferred_conn
          (SqlBytes ''insert into t values (1)''))) = Some CovenantSQLResult_init \<and>
   rows CovenantSQLResult_init = None \<and>
   conn_affected_rows (snd (query (example_env (answer exec_envelope)) deferred_conn
          (SqlBytes ''insert into t values (1)''))) = None"
proof -
  have s: "getitem exec_envelope (lit ''success'') = Inr (PBool True)"
    and d: "getitem exec_envelope (lit ''data'') = Inr PNone"
    by (simp_all add: exec_envelope_def lit_def)
  from exec_envelope_leaves_rows_unset [OF deferred_conn_open encode_sql_bytes example_post _ _ s _ d]
    deferred_conn_open
  show ?thesis by simp
qed

subsection \<open>The deferred connection\<close>

lemma execute_command_not_closed_error:
  assumes "\<not> get_closed c"
  shows "fst (execute_command env c s) \<noteq> Inl closed_error"
  using assms
  by (auto simp: execute_command_def encode_exn_def closed_error_def Let_def lit_def
           split: sum.splits option.splits sql.splits)

lemma read_ok_packet_not_closed_error: "fst (read_ok_packet c) \<noteq> Inl closed_error"
proof
  assume "fst (read_ok_packet c) = Inl closed_error"
  then have "read_ok_packet c =
      (Inl (Exn InterfaceError [PStr (lit ''Connection closed'')]), snd (read_ok_packet c))"
    by (metis closed_error_def prod.collapse)
  from read_ok_packet_exn [OF this] show False by simp
qed




lemma getitem_not_closed_error: "getitem v k \<noteq> Inl closed_error"
  using getitem_exn [of v k] by (auto simp: closed_error_def)




lemma command_not_closed_error:
  assumes "\<not> get_closed c"
    and "(case execute_command env c s of
              (Inl e, c1) \<Rightarrow> (Inl e, c1)
            | (Inr u, c1) \<Rightarrow>
                (case read_ok_packet c1 of
                   (Inl e, c2) \<Rightarrow> (Inl e, c2)
                 | (Inr st, c2) \<Rightarrow> (Inr (), c2))) = (r, c')"
  shows "r \<noteq> Inl closed_error"
  using assms(2)
proof (cases rule: command_cases)
  case (1 e)
  with execute_command_not_closed_error [OF assms(1), of env s] show ?thesis by simp
next
  case (2 u c1 r2)
  with read_ok_packet_not_closed_error [of c1] show ?thesis
    by (auto split: sum.splits)
qed




lemma literal_posted:
  assumes "\<not> get_closed c"
    and "PY2 env \<or> encode env (encoding c) Strict (lit b) = Some b"
  shows "posted (session (snd (execute_command env c (str_literal env b)))) =
           posted (session c) @ [request_for c b]"
  using assms execute_command_posted [OF assms(1), of env b]
    execute_command_posted_str [OF assms(1), of env "lit b" b]
  by (auto simp: str_literal_def)





subsection \<open>Reopening a closed connection\<close>

lemma request_for_reopened:
  "request_for (c\<lparr>closed := x, sock := y\<rparr>) b = request_for c b"
  by (simp add: request_for_def Let_def)

lemma connect_session:
  "session (snd (connect env c)) =
     session (snd (execute_command env (c\<lparr>closed := Some False, sock := Some True\<rparr>)
                     (str_literal env ''select 1;'')))"
  using command_kept [of env "c\<lparr>closed := Some False, sock := Some True\<rparr>"
      "str_literal env ''select 1;''" "fst (connect env c)" "snd (connect env c)"]
  by (simp add: connect_def Let_def)

lemma connect_not_closed_error: "fst (connect env c) \<noteq> Inl closed_error"
proof -
  have "\<not> get_closed (c\<lparr>closed := Some False, sock := Some True\<rparr>)"
    by (simp add: get_closed_def)
  then show ?thesis
    by (rule command_not_closed_error [of _ env "str_literal env ''select 1;''" _
          "snd (connect env c)"])
       (simp add: connect_def Let_def)
qed

lemma connect_posted:
  assumes "PY2 env \<or> encode env (encoding c) Strict (lit ''select 1;'') = Some ''select 1;''"
  shows "posted (session (snd (connect env c))) =
           posted (session c) @ [request_for c ''select 1;'']"
proof -
  let ?c0 = "c\<lparr>closed := Some False, sock := Some True\<rparr>"
  have "\<not> get_closed ?c0" by (simp add: get_closed_def)
  from literal_posted [OF this, of env "''select 1;''"] assms
  show ?thesis
    by (simp add: connect_session request_for_reopened)
qed

text \<open>
  C5, as the code has it. On a closed connection \<open>close\<close>, \<open>query\<close>, \<open>commit\<close> and
  \<open>rollback\<close> leave the closed flag true. \<open>connect\<close> sets the flag to false before it
  sends its probe command: the probe never raises the error of the closed connection, its
  request is posted when its literal is a byte string (Python 2) or the codec encodes it,
  and the flag is false afterwards whatever the probe does.
\<close>

theorem closed_left_only_by_connect:
  assumes "get_closed c"
  shows "get_closed (snd (close c)) \<and> get_closed (snd (query env c s)) \<and>
         get_closed (snd (commit env c)) \<and> get_closed (snd (rollback env c)) \<and>
         \<not> get_closed (snd (connect env c)) \<and>
         fst (connect env c) \<noteq> Inl (Exn InterfaceError [PStr (lit ''Connection closed'')]) \<and>
         (PY2 env \<or> encode env (encoding c) Strict (lit ''select 1;'') = Some ''select 1;'' \<longrightarrow>
            posted (session (snd (connect env c))) =
              posted (session c) @ [request_for c ''select 1;''])"
proof -
  have "get_closed (snd (close c)) \<and> get_closed (snd (query env c s)) \<and>
         get_closed (snd (commit env c)) \<and> get_closed (snd (rollback env c)) \<and>
         \<not> get_closed (snd (connect env c))"
    using assms query_kept [of env c s] commit_kept [of env c] rollback_kept [of env c]
      connect_closed [of env c]
    by (simp add: get_closed_def close_def)
  with connect_not_closed_error [of env c] connect_posted [of env c] show ?thesis
    unfolding closed_error_def by blast
qed

lemma probe_encodes:
  "encode (example_env tr) (lit ''utf8'') Strict (lit ''select 1;'') = Some ''select 1;''"
proof -
  have "utf8_encode Strict (lit ''select 1;'') = Some ''select 1;''" by code_simp
  then show ?thesis by (simp add: example_env_def)
qed

lemma probe_request:
  "request_for closed_conn ''select 1;'' =
     \<lparr>url = lit ''https://localhost:11108/v1/query'',
      data = [(lit ''database'', FieldNone), (lit ''query'', FieldBytes ''select 1;'')]\<rparr>"
proof -
  have "spec_select ''select 1;''" by code_simp
  then show ?thesis
    by (simp add: request_for_def select_refines closed_conn_def deferred_conn_def field_of_def
        Let_def)
qed

theorem closed_left_only_by_connect_witness:
  "get_closed closed_conn \<and>
   get_closed (snd (close closed_conn)) \<and>
   get_closed (snd (commit (example_env (answer exec_envelope)) closed_conn)) \<and>
   \<not> get_closed (snd (connect (example_env (answer exec_envelope)) closed_conn)) \<and>
   fst (connect (example_env (answer exec_envelope)) closed_conn) \<noteq>
     Inl (Exn InterfaceError [PStr (lit ''Connection closed'')]) \<and>
   posted (session (snd (connect (example_env (answer exec_envelope)) closed_conn))) =
     [\<lparr>url = lit ''https://localhost:11108/v1/query'',
       data = [(lit ''database'', FieldNone), (lit ''query'', FieldBytes ''select 1;'')]\<rparr>]"
proof -
  have e: "encoding closed_conn = lit ''utf8''" and p: "posted (session closed_conn) = []"
    by (simp_all add: closed_conn_def deferred_conn_def)
  from closed_left_only_by_connect [OF closed_conn_closed, of "example_env (answer exec_envelope)"]
    closed_conn_closed probe_encodes [of "answer exec_envelope"] probe_request e p
  show ?thesis by simp
qed

end
